theory Spec2Isabelle
  imports Main
begin

section \<open>Errors\<close>

text \<open>
  The Go code returns values of the interface \<open>error\<close>. Three kinds occur in the
  manager: errors built with \<open>errors.New(msg)\<close>, the error of
  \<open>template.Parse\<close> and the error of \<open>Template.Execute\<close>; the last two
  carry the name of the template. \<open>OutsideFragment\<close> is not a Go error: it marks a
  template text that lies outside the part of the template language that this
  development models (see below), where nothing is said about the library.
\<close>

datatype error =
    errors_New string
  | template_ParseError string
  | template_ExecError string
  | OutsideFragment string

section \<open>The template library: lexing\<close>

text \<open>
  \<open>text/template\<close> is Go's standard library. The fragment modelled here: templates of
  ASCII bytes, made of literal text and of actions \<open>{{ ... }}\<close> whose tokens are
  blanks (space, tab), field references \<open>.Name\<close> (chained: \<open>.A.B\<close>), string
  literals in double quotes without escapes, the constants \<open>true\<close> and \<open>false\<close>,
  and the keywords \<open>if\<close>, \<open>else\<close>, \<open>end\<close>. Everything else (comments, trim
  markers, pipes, variables, functions, numbers, \<open>range\<close>, \<open>with\<close>,
  \<open>define\<close>, \<open>else if\<close>, a lone dot, line breaks inside an action) gives
  \<open>Outside\<close>.

  The three results of lexing and parsing: \<open>Parsed x\<close>, the library succeeds and
  builds \<open>x\<close>; \<open>Malformed\<close>, the library reports an error of syntax; \<open>Outside\<close>,
  the input leaves the fragment at this point and the model does not say what the
  library does.
\<close>

datatype 'a parsed = Parsed 'a | Malformed | Outside

datatype item =
    itemSpace
  | itemField string
  | itemString string
  | itemBool bool
  | itemIf
  | itemElse
  | itemEnd

definition isSpace :: "char \<Rightarrow> bool" where
  "isSpace c = (c = CHR '' '' \<or> c = CHR 0x09)"

definition isDigit :: "char \<Rightarrow> bool" where
  "isDigit c = (let n = (of_char c :: nat) in 48 \<le> n \<and> n \<le> 57)"

definition isLetter :: "char \<Rightarrow> bool" where
  "isLetter c = (let n = (of_char c :: nat) in (65 \<le> n \<and> n \<le> 90) \<or> (97 \<le> n \<and> n \<le> 122))"

definition isAlphaNumeric :: "char \<Rightarrow> bool" where
  "isAlphaNumeric c = (c = CHR ''_'' \<or> isLetter c \<or> isDigit c)"

definition isASCII :: "char \<Rightarrow> bool" where
  "isASCII c = ((of_char c :: nat) < 128)"

text \<open>\<open>hasRightDelim cs\<close>: the input starts with the right delimiter \<open>}}\<close>.\<close>

fun hasRightDelim :: "string \<Rightarrow> bool" where
  "hasRightDelim (c # d # cs) = (c = CHR ''}'' \<and> d = CHR ''}'')"
| "hasRightDelim _ = False"

text \<open>
  The lexer's \<open>atTerminator\<close>: after a field or a word the next character must be a
  blank, the end of the input, one of \<open>. , | : ) (\<close>, or the right delimiter.
\<close>

definition atTerminator :: "string \<Rightarrow> bool" where
  "atTerminator cs =
     (case cs of
        [] \<Rightarrow> True
      | c # _ \<Rightarrow> isSpace c \<or> c = CHR 0x0D \<or> c = CHR 0x0A \<or> c \<in> set ''.,|:)('' \<or> hasRightDelim cs)"

text \<open>A word: \<open>true\<close> and \<open>false\<close> are constants, \<open>if\<close>, \<open>else\<close>, \<open>end\<close> keywords.\<close>

definition lexWord :: "string \<Rightarrow> item option" where
  "lexWord w =
     (if w = ''true'' then Some (itemBool True)
      else if w = ''false'' then Some (itemBool False)
      else if w = ''if'' then Some itemIf
      else if w = ''else'' then Some itemElse
      else if w = ''end'' then Some itemEnd
      else None)"

definition quoteEnd :: "char \<Rightarrow> bool" where
  "quoteEnd c = (c = CHR 0x22 \<or> c = CHR 0x5C \<or> c = CHR 0x0A)"

definition emitItem :: "item \<Rightarrow> (item list \<times> string) parsed \<Rightarrow> (item list \<times> string) parsed" where
  "emitItem i r = (case r of Parsed (is, rest) \<Rightarrow> Parsed (i # is, rest) | Malformed \<Rightarrow> Malformed | Outside \<Rightarrow> Outside)"

text \<open>
  \<open>lexInsideAction\<close> scans the tokens of one action, from just after \<open>{{\<close> to its
  \<open>}}\<close>, and returns them with the input that follows the right delimiter. The end
  of the input inside an action ("unclosed action") or inside a quoted string
  ("unterminated quoted string"), and a field or word that is not followed by a
  terminator ("bad character"), are errors of the lexer.
\<close>

function lexInsideAction :: "string \<Rightarrow> (item list \<times> string) parsed" where
  "lexInsideAction [] = Malformed"
| "lexInsideAction (c # cs) =
     (if hasRightDelim (c # cs) then Parsed ([], tl cs)
      else if isSpace c then emitItem itemSpace (lexInsideAction (dropWhile isSpace cs))
      else if c = CHR ''.'' then
        (let name = takeWhile isAlphaNumeric cs; rest = dropWhile isAlphaNumeric cs in
         if name = [] \<or> isDigit (hd name) then Outside
         else if \<not> atTerminator rest then Malformed
         else emitItem (itemField name) (lexInsideAction rest))
      else if c = CHR 0x22 then
        (case dropWhile (\<lambda>x. \<not> quoteEnd x) cs of
           [] \<Rightarrow> Malformed
         | q # rest \<Rightarrow>
             if q = CHR 0x22 then
               emitItem (itemString (takeWhile (\<lambda>x. \<not> quoteEnd x) cs)) (lexInsideAction rest)
             else if q = CHR 0x0A then Malformed
             else Outside)
      else if c = CHR ''_'' \<or> isLetter c then
        (let rest = dropWhile isAlphaNumeric cs in
         if \<not> atTerminator rest then Malformed
         else (case lexWord (c # takeWhile isAlphaNumeric cs) of
                 None \<Rightarrow> Outside
               | Some i \<Rightarrow> emitItem i (lexInsideAction rest)))
      else Outside)"
  by pat_completeness auto

termination
proof (relation "measure length")
  show "wf (measure length)" by simp
next
  fix c :: char and cs :: string
  show "(dropWhile isSpace cs, c # cs) \<in> measure length"
    by (simp add: length_dropWhile_le le_imp_less_Suc)
next
  fix c :: char and cs x xa :: string
  assume "xa = dropWhile isAlphaNumeric cs"
  then show "(xa, c # cs) \<in> measure length"
    by (simp add: length_dropWhile_le le_imp_less_Suc)
next
  fix c q :: char and cs rest :: string
  assume "dropWhile (\<lambda>x. \<not> quoteEnd x) cs = q # rest"
  then have "Suc (length rest) \<le> length cs"
    using length_dropWhile_le [of "\<lambda>x. \<not> quoteEnd x" cs] by simp
  then show "(rest, c # cs) \<in> measure length" by simp
next
  fix c :: char and cs x :: string and i :: item
  assume "x = dropWhile isAlphaNumeric cs"
  then show "(x, c # cs) \<in> measure length"
    by (simp add: length_dropWhile_le le_imp_less_Suc)
qed

text \<open>
  \<open>lexText\<close> cuts the input at the first left delimiter \<open>{{\<close>: the text before it
  is one lexeme (none when it is empty), the action that follows is the next.
\<close>

datatype lexeme = Text string | Action "item list"

fun splitLeftDelim :: "string \<Rightarrow> string \<times> string option" where
  "splitLeftDelim (c # d # cs) =
     (if c = CHR ''{'' \<and> d = CHR ''{'' then ([], Some cs)
      else (case splitLeftDelim (d # cs) of (t, r) \<Rightarrow> (c # t, r)))"
| "splitLeftDelim cs = (cs, None)"

definition emitText :: "string \<Rightarrow> lexeme list \<Rightarrow> lexeme list" where
  "emitText t ls = (if t = [] then ls else Text t # ls)"

lemma splitLeftDelim_length:
  "splitLeftDelim cs = (t, Some rest) \<Longrightarrow> length rest < length cs"
proof (induction cs arbitrary: t rule: splitLeftDelim.induct)
  case (1 c d cs)
  then show ?case
    by (auto split: if_splits prod.splits)
qed simp_all

lemma emitItem_Parsed:
  "emitItem i r = Parsed (is, rest) \<Longrightarrow> \<exists>js. r = Parsed (js, rest)"
  by (cases r) (auto simp: emitItem_def)

lemma lexInsideAction_length:
  "lexInsideAction cs = Parsed (is, rest) \<Longrightarrow> length rest < length cs"
proof (induction cs arbitrary: "is" rule: lexInsideAction.induct)
  case 1
  then show ?case by simp
next
  case (2 c cs)
  show ?case
  proof (cases "hasRightDelim (c # cs)")
    case True
    then obtain d ds where "cs = d # ds" by (cases cs) auto
    with True 2(5) show ?thesis by simp
  next
    case nd: False
    show ?thesis
    proof (cases "isSpace c")
      case True
      with nd 2(5) obtain js where "lexInsideAction (dropWhile isSpace cs) = Parsed (js, rest)"
        by (auto dest: emitItem_Parsed)
      from 2(1) [OF nd True this] have "length rest < length (dropWhile isSpace cs)" .
      then show ?thesis
        using length_dropWhile_le [of isSpace cs] by simp
    next
      case ns: False
      show ?thesis
      proof (cases "c = CHR ''.''")
        case True
        let ?name = "takeWhile isAlphaNumeric cs"
        let ?rest = "dropWhile isAlphaNumeric cs"
        from nd ns True 2(5)
        have a: "\<not> (?name = [] \<or> isDigit (hd ?name))" and b: "\<not> \<not> atTerminator ?rest"
          by (auto simp: Let_def split: if_splits)
        from nd ns True 2(5) a b obtain js where "lexInsideAction ?rest = Parsed (js, rest)"
          by (auto simp: Let_def dest: emitItem_Parsed)
        from 2(2) [OF nd ns True refl refl a b this] have "length rest < length ?rest" .
        then show ?thesis
          using length_dropWhile_le [of isAlphaNumeric cs] by simp
      next
        case nf: False
        show ?thesis
        proof (cases "c = CHR 0x22")
          case True
          from nd ns nf True 2(5) obtain q r where
            q: "dropWhile (\<lambda>x. \<not> quoteEnd x) cs = q # r" and qq: "q = CHR 0x22"
            by (auto split: list.splits if_splits)
          from nd ns nf True 2(5) q qq obtain js where "lexInsideAction r = Parsed (js, rest)"
            by (auto dest: emitItem_Parsed)
          from 2(3) [OF nd ns nf True q qq this] have "length rest < length r" .
          moreover have "length (q # r) \<le> length cs"
            using length_dropWhile_le [of "\<lambda>x. \<not> quoteEnd x" cs] q by simp
          ultimately show ?thesis by simp
        next
          case nq: False
          let ?rest = "dropWhile isAlphaNumeric cs"
          from nd ns nf nq 2(5) have w: "c = CHR ''_'' \<or> isLetter c"
            by (auto split: if_splits)
          from nd ns nf nq w 2(5) have b: "\<not> \<not> atTerminator ?rest"
            by (simp add: Let_def split: if_splits)
          from nd ns nf nq w b 2(5) have e:
            "(case lexWord (c # takeWhile isAlphaNumeric cs) of None \<Rightarrow> Outside
              | Some i \<Rightarrow> emitItem i (lexInsideAction ?rest)) = Parsed (is, rest)"
            by (simp add: Let_def)
          then obtain i where i: "lexWord (c # takeWhile isAlphaNumeric cs) = Some i"
            by (cases "lexWord (c # takeWhile isAlphaNumeric cs)") auto
          with e have "emitItem i (lexInsideAction ?rest) = Parsed (is, rest)" by simp
          then obtain js where r: "lexInsideAction ?rest = Parsed (js, rest)"
            by (auto dest: emitItem_Parsed)
          from 2(4) [OF nd ns nf nq w refl b i r] have "length rest < length ?rest" .
          then show ?thesis
            using length_dropWhile_le [of isAlphaNumeric cs] by simp
        qed
      qed
    qed
  qed
qed

function lexText :: "string \<Rightarrow> lexeme list parsed" where
  "lexText [] = Parsed []"
| "lexText (c # cs) =
     (case splitLeftDelim (c # cs) of
        (t, None) \<Rightarrow> Parsed (emitText t [])
      | (t, Some rest) \<Rightarrow>
          (case lexInsideAction rest of
             Parsed (is, rest') \<Rightarrow>
               (case lexText rest' of
                  Parsed ls \<Rightarrow> Parsed (emitText t (Action is # ls))
                | Malformed \<Rightarrow> Malformed
                | Outside \<Rightarrow> Outside)
           | Malformed \<Rightarrow> Malformed
           | Outside \<Rightarrow> Outside))"
  by pat_completeness auto

termination
  by (relation "measure length")
    (auto dest!: splitLeftDelim_length [OF sym] lexInsideAction_length)

section \<open>The template library: parsing\<close>

text \<open>
  The parse tree of the fragment. An operand is a field chain (\<open>.A.B\<close> is
  \<open>FieldNode [A, B]\<close>), a string or a boolean constant; a command is a list of
  operands (the library's \<open>CommandNode.Args\<close>); an action and the condition of an
  \<open>if\<close> hold a pipeline of one command with no variable declaration. A list of
  nodes is the library's \<open>ListNode\<close>; an \<open>if\<close> without \<open>else\<close> has the empty
  list as its else branch.
\<close>

datatype arg = FieldNode "string list" | StringNode string | BoolNode bool

type_synonym command = "arg list"

datatype node =
    TextNode string
  | ActionNode command
  | IfNode command "node list" "node list"

record Template =
  Name :: string
  Root :: "node list"

definition consArg :: "arg \<Rightarrow> command parsed \<Rightarrow> command parsed" where
  "consArg a r = (case r of Parsed as \<Rightarrow> Parsed (a # as) | Malformed \<Rightarrow> Malformed | Outside \<Rightarrow> Outside)"

text \<open>
  The operands of a command, up to the right delimiter. The first argument is the
  operand that has just been read, while the next token is still adjacent to it: a
  field adjacent to a field extends the chain, a field adjacent to a constant is an
  error ("unexpected . after term"), and anything else but a blank or the end is
  an error too ("unexpected ... in operand"). A keyword is never an operand.
\<close>

fun parseCommand :: "arg option \<Rightarrow> item list \<Rightarrow> command parsed" where
  "parseCommand None [] = Parsed []"
| "parseCommand (Some a) [] = Parsed [a]"
| "parseCommand None (itemSpace # is) = parseCommand None is"
| "parseCommand (Some a) (itemSpace # is) = consArg a (parseCommand None is)"
| "parseCommand None (itemField f # is) = parseCommand (Some (FieldNode [f])) is"
| "parseCommand (Some (FieldNode fs)) (itemField f # is) = parseCommand (Some (FieldNode (fs @ [f]))) is"
| "parseCommand None (itemString s # is) = parseCommand (Some (StringNode s)) is"
| "parseCommand None (itemBool b # is) = parseCommand (Some (BoolNode b)) is"
| "parseCommand _ _ = Malformed"

text \<open>What one action is: a plain action, or the opening, the middle or the end of an \<open>if\<close>.\<close>

datatype part = PAction command | PIf command | PElse | PEnd

definition allSpace :: "item list \<Rightarrow> bool" where
  "allSpace is = list_all (\<lambda>i. i = itemSpace) is"

definition parseAction :: "item list \<Rightarrow> part parsed" where
  "parseAction is =
     (case dropWhile (\<lambda>i. i = itemSpace) is of
        itemIf # rest \<Rightarrow>
          (case parseCommand None rest of
             Parsed c \<Rightarrow> if c = [] then Malformed else Parsed (PIf c)
           | Malformed \<Rightarrow> Malformed
           | Outside \<Rightarrow> Outside)
      | itemElse # rest \<Rightarrow> if allSpace rest then Parsed PElse else Outside
      | itemEnd # rest \<Rightarrow> if allSpace rest then Parsed PEnd else Malformed
      | rest \<Rightarrow>
          (case parseCommand None rest of
             Parsed c \<Rightarrow> if c = [] then Malformed else Parsed (PAction c)
           | Malformed \<Rightarrow> Malformed
           | Outside \<Rightarrow> Outside))"

text \<open>
  The nesting of \<open>if\<close> ... \<open>else\<close> ... \<open>end\<close>, with the open conditionals on a
  stack: a frame holds the condition, the finished then-branch once \<open>else\<close> has
  been seen, and the nodes (latest first) of the list the \<open>if\<close> stands in. The
  second argument holds the nodes of the current list, latest first. An \<open>else\<close> or
  \<open>end\<close> with no open \<open>if\<close>, a second \<open>else\<close>, and the end of the input inside
  an \<open>if\<close> are errors.
\<close>

datatype frame = Frame command "node list option" "node list"

fun closeFrame :: "frame \<Rightarrow> node list \<Rightarrow> node list" where
  "closeFrame (Frame c None outer) cur = IfNode c (rev cur) [] # outer"
| "closeFrame (Frame c (Some thn) outer) cur = IfNode c thn (rev cur) # outer"

fun itemList :: "frame list \<Rightarrow> node list \<Rightarrow> lexeme list \<Rightarrow> node list parsed" where
  "itemList [] cur [] = Parsed (rev cur)"
| "itemList (f # fs) cur [] = Malformed"
| "itemList fs cur (Text t # ls) = itemList fs (TextNode t # cur) ls"
| "itemList fs cur (Action is # ls) =
     (case parseAction is of
        Malformed \<Rightarrow> Malformed
      | Outside \<Rightarrow> Outside
      | Parsed (PAction c) \<Rightarrow> itemList fs (ActionNode c # cur) ls
      | Parsed (PIf c) \<Rightarrow> itemList (Frame c None cur # fs) [] ls
      | Parsed PElse \<Rightarrow>
          (case fs of
             Frame c None outer # fs' \<Rightarrow> itemList (Frame c (Some (rev cur)) outer # fs') [] ls
           | _ \<Rightarrow> Malformed)
      | Parsed PEnd \<Rightarrow>
          (case fs of
             [] \<Rightarrow> Malformed
           | f # fs' \<Rightarrow> itemList fs' (closeFrame f cur) ls))"

text \<open>
  \<open>template.New(name).Option("missingkey=error").Parse(text)\<close>. The option only
  changes how a missing key of a map is rendered; the data of this program is a
  struct, where a missing field is an error under every option.
\<close>

definition Parse :: "string \<Rightarrow> string \<Rightarrow> error + Template" where
  "Parse name text =
     (if \<not> list_all isASCII text then Inl (OutsideFragment name)
      else (case lexText text of
              Malformed \<Rightarrow> Inl (template_ParseError name)
            | Outside \<Rightarrow> Inl (OutsideFragment name)
            | Parsed ls \<Rightarrow>
                (case itemList [] [] ls of
                   Malformed \<Rightarrow> Inl (template_ParseError name)
                 | Outside \<Rightarrow> Inl (OutsideFragment name)
                 | Parsed ns \<Rightarrow> Inr \<lparr>Name = name, Root = ns\<rparr>)))"

text \<open>
  \<open>parse.IsEmptyTree\<close>: a text node is empty when \<open>bytes.TrimSpace\<close> leaves nothing
  of it, a list when all its nodes are; an action and an \<open>if\<close> never are.
\<close>

definition isWhite :: "char \<Rightarrow> bool" where
  "isWhite c = (c = CHR 0x09 \<or> c = CHR 0x0A \<or> c = CHR 0x0B \<or> c = CHR 0x0C \<or> c = CHR 0x0D \<or> c = CHR '' '')"

definition TrimSpace :: "string \<Rightarrow> string" where
  "TrimSpace s = rev (dropWhile isWhite (rev (dropWhile isWhite s)))"

fun IsEmptyNode :: "node \<Rightarrow> bool" where
  "IsEmptyNode (TextNode t) = (length (TrimSpace t) = 0)"
| "IsEmptyNode (ActionNode c) = False"
| "IsEmptyNode (IfNode c l e) = False"

definition IsEmptyTree :: "node list \<Rightarrow> bool" where
  "IsEmptyTree ns = list_all IsEmptyNode ns"

section \<open>The template library: execution\<close>

text \<open>
  The data a template is executed on is the program's struct \<open>Secret\<close>. A value
  met during execution is that struct (the dot), a string or a boolean.
\<close>

record Secret =
  Team :: string
  Pipeline :: string
  Secret :: string

datatype val = VString string | VBool bool

datatype receiver = Dot Secret | Val val

text \<open>
  \<open>evalField\<close>: the struct has no methods and the three exported fields; a field
  that is given arguments "cannot be invoked as function"; any other name, and any
  field of a string or a boolean, "can't evaluate field". \<open>None\<close> is the library's
  \<open>errorf\<close>, which ends the execution.
\<close>

fun evalField :: "string \<Rightarrow> bool \<Rightarrow> receiver \<Rightarrow> val option" where
  "evalField fieldName hasArgs (Dot d) =
     (if fieldName = ''Team'' then (if hasArgs then None else Some (VString (Team d)))
      else if fieldName = ''Pipeline'' then (if hasArgs then None else Some (VString (Pipeline d)))
      else if fieldName = ''Secret'' then (if hasArgs then None else Some (VString (Secret d)))
      else None)"
| "evalField fieldName hasArgs (Val v) = None"

text \<open>
  \<open>evalFieldChain\<close>: all names but the last are evaluated without arguments, each on
  the value of the one before. The parser builds no empty chain.
\<close>

fun evalFieldChain :: "receiver \<Rightarrow> string list \<Rightarrow> bool \<Rightarrow> val option" where
  "evalFieldChain r [] hasArgs = None"
| "evalFieldChain r [f] hasArgs = evalField f hasArgs r"
| "evalFieldChain r (f # g # fs) hasArgs =
     (case evalField f False r of
        None \<Rightarrow> None
      | Some v \<Rightarrow> evalFieldChain (Val v) (g # fs) hasArgs)"

text \<open>
  \<open>evalCommand\<close> on the first word of the command: a field chain gets the other
  words as arguments; a constant with arguments is an error ("can't give argument
  to non-function"). The parser builds no empty command.
\<close>

fun evalCommand :: "Secret \<Rightarrow> command \<Rightarrow> val option" where
  "evalCommand d [] = None"
| "evalCommand d (FieldNode ident # args) = evalFieldChain (Dot d) ident (args \<noteq> [])"
| "evalCommand d (StringNode s # args) = (if args \<noteq> [] then None else Some (VString s))"
| "evalCommand d (BoolNode b # args) = (if args \<noteq> [] then None else Some (VBool b))"

fun printValue :: "val \<Rightarrow> string" where
  "printValue (VString s) = s"
| "printValue (VBool b) = (if b then ''true'' else ''false'')"

fun isTrue :: "val \<Rightarrow> bool" where
  "isTrue (VString s) = (length s > 0)"
| "isTrue (VBool b) = b"

text \<open>
  \<open>walk\<close> returns what the node writes; the writes of a list are concatenated. An
  error ends the execution, and what was written before it is not kept: the
  program either discards the output or drops it with the error.
\<close>

fun walk :: "Secret \<Rightarrow> node \<Rightarrow> string option"
  and walkList :: "Secret \<Rightarrow> node list \<Rightarrow> string option" where
  "walk d (TextNode t) = Some t"
| "walk d (ActionNode c) = map_option printValue (evalCommand d c)"
| "walk d (IfNode c l e) =
     (case evalCommand d c of
        None \<Rightarrow> None
      | Some v \<Rightarrow> if isTrue v then walkList d l else walkList d e)"
| "walkList d [] = Some []"
| "walkList d (n # ns) =
     (case walk d n of
        None \<Rightarrow> None
      | Some a \<Rightarrow> (case walkList d ns of None \<Rightarrow> None | Some b \<Rightarrow> Some (a @ b)))"

definition Execute :: "Template \<Rightarrow> Secret \<Rightarrow> error + string" where
  "Execute t d =
     (case walkList d (Root t) of
        None \<Rightarrow> Inl (template_ExecError (Name t))
      | Some out \<Rightarrow> Inr out)"

section \<open>The manager\<close>

definition DefaultPipelineSecretTemplate :: string where
  "DefaultPipelineSecretTemplate = ''/concourse/{{.Team}}/{{.Pipeline}}/{{.Secret}}''"

definition DefaultTeamSecretTemplate :: string where
  "DefaultTeamSecretTemplate = ''/concourse/{{.Team}}/{{.Secret}}''"

text \<open>The field \<open>Conjur\<close> is a pointer: \<open>None\<close> is nil, \<open>Some a\<close> the object at address \<open>a\<close>.\<close>

record Manager =
  ConjurApplianceUrl :: string
  ConjurAccount :: string
  ConjurCertFile :: string
  ConjurAuthnLogin :: string
  ConjurAuthnApiKey :: string
  PipelineSecretTemplate :: string
  TeamSecretTemplate :: string
  Conjur :: "nat option"

definition buildSecretTemplate :: "string \<Rightarrow> string \<Rightarrow> error + Template" where
  "buildSecretTemplate name tmpl =
     (case Parse name tmpl of
        Inl err \<Rightarrow> Inl err
      | Inr t \<Rightarrow>
          if IsEmptyTree (Root t) then Inl (errors_New ''secret template should not be empty'')
          else Inr t)"

definition IsConfigured :: "Manager \<Rightarrow> bool" where
  "IsConfigured manager = (ConjurApplianceUrl manager \<noteq> '''')"

definition dummy :: Secret where
  "dummy = \<lparr>Team = ''team'', Pipeline = ''pipeline'', Secret = ''secret''\<rparr>"

text \<open>
  \<open>Validate\<close> has a pointer receiver, so it could write to the manager: the model
  returns the manager as it is after the call, beside the error (\<open>None\<close> is nil).
\<close>

definition Validate :: "Manager \<Rightarrow> error option \<times> Manager" where
  "Validate manager =
     (case buildSecretTemplate ''pipeline-secret-template'' (PipelineSecretTemplate manager) of
        Inl err \<Rightarrow> (Some err, manager)
      | Inr pipelineSecretTemplate \<Rightarrow>
     (case buildSecretTemplate ''team-secret-template'' (TeamSecretTemplate manager) of
        Inl err \<Rightarrow> (Some err, manager)
      | Inr teamSecretTemplate \<Rightarrow>
     (case Execute pipelineSecretTemplate dummy of
        Inl err \<Rightarrow> (Some err, manager)
      | Inr _ \<Rightarrow>
     (case Execute teamSecretTemplate dummy of
        Inl err \<Rightarrow> (Some err, manager)
      | Inr _ \<Rightarrow>
     if ConjurApplianceUrl manager = '''' \<and> ConjurAccount manager = '''' \<and>
        ConjurAuthnLogin manager = '''' \<and> ConjurAuthnApiKey manager = ''''
     then (None, manager)
     else if ConjurAuthnLogin manager = ''''
     then (Some (errors_New ''must provide conjur authn login''), manager)
     else if ConjurAuthnApiKey manager = ''''
     then (Some (errors_New ''must provide conjur authn key''), manager)
     else if ConjurApplianceUrl manager = ''''
     then (Some (errors_New ''must provide conjur appliance url''), manager)
     else if ConjurAccount manager = ''''
     then (Some (errors_New ''must provide conjur account''), manager)
     else (None, manager)))))"

section \<open>The secrets factory and the resolver\<close>

text \<open>
  \<open>NewSecretsFactory\<close> calls the Conjur client library twice
  (\<open>conjurapi.LoadConfig\<close>, \<open>conjurapi.NewClientFromKey\<close>): both calls are
  parameters here. Of \<open>conjurapi.Config\<close> only the two fields the manager writes
  are kept. Logging is left out.
\<close>

record Config =
  ApplianceURL :: string
  Account :: string

record LoginPair =
  Login :: string
  APIKey :: string

text \<open>
  Modelled from the spec: the store client is the capability
  \<open>fetch(path) -> (value, found) | Error\<close> of section 6, a function of the path.
\<close>

type_synonym StoreClient = "string \<Rightarrow> error + string \<times> bool"

text \<open>
  Modelled from the spec: \<open>NewConjurFactory\<close> and the factory it builds are not
  among the sources; the factory is taken to hold the client and the compiled
  templates in the order they are passed.
\<close>

record ConjurFactory =
  client :: StoreClient
  secretTemplates :: "Template list"

definition NewConjurFactory :: "StoreClient \<Rightarrow> Template list \<Rightarrow> ConjurFactory" where
  "NewConjurFactory c ts = \<lparr>client = c, secretTemplates = ts\<rparr>"

definition NewSecretsFactory ::
  "(error + Config) \<Rightarrow> (Config \<Rightarrow> LoginPair \<Rightarrow> error + StoreClient) \<Rightarrow> Manager \<Rightarrow> error + ConjurFactory" where
  "NewSecretsFactory LoadConfig NewClientFromKey manager =
     (case LoadConfig of
        Inl err \<Rightarrow> Inl err
      | Inr config \<Rightarrow>
     (case NewClientFromKey
             (config\<lparr>ApplianceURL := ConjurApplianceUrl manager, Account := ConjurAccount manager\<rparr>)
             \<lparr>Login = ConjurAuthnLogin manager, APIKey = ConjurAuthnApiKey manager\<rparr> of
        Inl err \<Rightarrow> Inl err
      | Inr cl \<Rightarrow>
     (case buildSecretTemplate ''pipeline-secret-template'' (PipelineSecretTemplate manager) of
        Inl err \<Rightarrow> Inl err
      | Inr pipelineSecretTemplate \<Rightarrow>
     (case buildSecretTemplate ''team-secret-template'' (TeamSecretTemplate manager) of
        Inl err \<Rightarrow> Inl err
      | Inr teamSecretTemplate \<Rightarrow>
          Inr (NewConjurFactory cl [pipelineSecretTemplate, teamSecretTemplate])))))"

text \<open>
  Modelled from the spec: the resolver (section 4.4) is not among the sources. The
  precedence list pairs each template with its applicability: the first, the
  pipeline-scoped one, applies when the request has a pipeline, the second, the
  team-scoped one, always.
\<close>

definition precedence :: "Template list \<Rightarrow> (Template \<times> (Secret \<Rightarrow> bool)) list" where
  "precedence ts = zip ts [\<lambda>request. Pipeline request \<noteq> '''', \<lambda>request. True]"

text \<open>
  Modelled from the spec: each applicable candidate is rendered, a render failure
  aborts; the store is queried with the path; not found goes on to the next
  candidate, a value ends the resolution, an error of the store aborts; with no
  candidate left the result is not found. The list of the paths queried so far is
  passed along and returned, the one call per candidate being the side effect.
\<close>

fun tryCandidates ::
  "StoreClient \<Rightarrow> Secret \<Rightarrow> (Template \<times> (Secret \<Rightarrow> bool)) list \<Rightarrow> string list \<Rightarrow>
     (error + string \<times> bool) \<times> string list" where
  "tryCandidates fetch request [] queried = (Inr ('''', False), queried)"
| "tryCandidates fetch request ((t, applicable) # cs) queried =
     (if \<not> applicable request then tryCandidates fetch request cs queried
      else (case Execute t request of
              Inl err \<Rightarrow> (Inl err, queried)
            | Inr path \<Rightarrow>
                (case fetch path of
                   Inl err \<Rightarrow> (Inl err, queried @ [path])
                 | Inr (v, found) \<Rightarrow>
                     if found then (Inr (v, True), queried @ [path])
                     else tryCandidates fetch request cs (queried @ [path]))))"

text \<open>
  Modelled from the spec: \<open>resolve(request, compiledTemplates, storeClient)\<close> tries
  the candidates of the precedence list in order, starting with no path queried.
\<close>

definition resolve ::
  "Secret \<Rightarrow> Template list \<Rightarrow> StoreClient \<Rightarrow> (error + string \<times> bool) \<times> string list" where
  "resolve request compiledTemplates storeClient =
     tryCandidates storeClient request (precedence compiledTemplates) []"

section \<open>Which fields a template refers to\<close>

text \<open>
  The field names a command mentions, the names a template mentions anywhere, and
  the names it mentions outside the branches of a conditional: in its actions and
  conditions that are not nested in an \<open>if\<close>.
\<close>

fun argFields :: "arg \<Rightarrow> string list" where
  "argFields (FieldNode fs) = fs"
| "argFields (StringNode s) = []"
| "argFields (BoolNode b) = []"

definition commandFields :: "command \<Rightarrow> string list" where
  "commandFields c = concat (map argFields c)"

fun nodeFields :: "node \<Rightarrow> string list"
  and listFields :: "node list \<Rightarrow> string list" where
  "nodeFields (TextNode t) = []"
| "nodeFields (ActionNode c) = commandFields c"
| "nodeFields (IfNode c l e) = commandFields c @ listFields l @ listFields e"
| "listFields [] = []"
| "listFields (n # ns) = nodeFields n @ listFields ns"






section \<open>Example configurations\<close>

text \<open>
  The manager as the command line leaves it when no flag is given: the two
  templates have their defaults, every other field is empty.
\<close>

definition defaultManager :: Manager where
  "defaultManager =
     \<lparr>ConjurApplianceUrl = '''', ConjurAccount = '''', ConjurCertFile = '''',
      ConjurAuthnLogin = '''', ConjurAuthnApiKey = '''',
      PipelineSecretTemplate = DefaultPipelineSecretTemplate,
      TeamSecretTemplate = DefaultTeamSecretTemplate, Conjur = None\<rparr>"

definition defaultPipelineTemplate :: Template where
  "defaultPipelineTemplate =
     \<lparr>Name = ''pipeline-secret-template'',
      Root = [TextNode ''/concourse/'', ActionNode [FieldNode [''Team'']], TextNode ''/'',
              ActionNode [FieldNode [''Pipeline'']], TextNode ''/'',
              ActionNode [FieldNode [''Secret'']]]\<rparr>"

definition defaultTeamTemplate :: Template where
  "defaultTeamTemplate =
     \<lparr>Name = ''team-secret-template'',
      Root = [TextNode ''/concourse/'', ActionNode [FieldNode [''Team'']], TextNode ''/'',
              ActionNode [FieldNode [''Secret'']]]\<rparr>"

text \<open>A store that holds one secret, at the team path of team \<open>t1\<close>.\<close>

definition exampleStore :: StoreClient where
  "exampleStore path = (if path = ''/concourse/t1/s1'' then Inr (''hunter2'', True) else Inr ('''', False))"

section \<open>The manager's checks\<close>


lemma build_default_pipeline:
  "buildSecretTemplate ''pipeline-secret-template'' DefaultPipelineSecretTemplate =
     Inr defaultPipelineTemplate"
  by code_simp

lemma build_default_team:
  "buildSecretTemplate ''team-secret-template'' DefaultTeamSecretTemplate =
     Inr defaultTeamTemplate"
  by code_simp

lemma Execute_default_pipeline:
  "Execute defaultPipelineTemplate d =
     Inr (''/concourse/'' @ Team d @ ''/'' @ Pipeline d @ ''/'' @ Secret d)"
  by (simp add: Execute_def defaultPipelineTemplate_def)

lemma Execute_default_team:
  "Execute defaultTeamTemplate d = Inr (''/concourse/'' @ Team d @ ''/'' @ Secret d)"
  by (simp add: Execute_def defaultTeamTemplate_def)

lemmas default_templates =
  build_default_pipeline build_default_team Execute_default_pipeline Execute_default_team

text \<open>
  C9. \<open>Validate\<close> does not change the manager: every field (appliance URL, account,
  cert file, login, api key, the two template strings, the client handle) is after
  the call what it was before, whether the call returns nil or an error.
\<close>

theorem Validate_leaves_manager: "snd (Validate manager) = manager"
  by (simp add: Validate_def split: sum.splits)

theorem Validate_leaves_manager_witness:
  "snd (Validate (defaultManager\<lparr>ConjurApplianceUrl := ''https://conjur'', Conjur := Some 7\<rparr>)) =
     defaultManager\<lparr>ConjurApplianceUrl := ''https://conjur'', Conjur := Some 7\<rparr>
   \<and> fst (Validate (defaultManager\<lparr>ConjurApplianceUrl := ''https://conjur'', Conjur := Some 7\<rparr>)) =
     Some (errors_New ''must provide conjur authn login'')"
  using Validate_leaves_manager
    [of "defaultManager\<lparr>ConjurApplianceUrl := ''https://conjur'', Conjur := Some 7\<rparr>"]
  by (simp add: Validate_def defaultManager_def default_templates)

text \<open>
  C2. When both templates compile and execute, and the four fields appliance URL,
  account, login and api key are not all empty, \<open>Validate\<close> returns the error that
  names the first missing field in the order login, api key, appliance URL,
  account, and nil when none of the four is missing.
\<close>

theorem Validate_first_missing_field:
  assumes "buildSecretTemplate ''pipeline-secret-template'' (PipelineSecretTemplate manager) = Inr p"
    and "buildSecretTemplate ''team-secret-template'' (TeamSecretTemplate manager) = Inr t"
    and "Execute p dummy = Inr out1"
    and "Execute t dummy = Inr out2"
    and "\<not> (ConjurApplianceUrl manager = '''' \<and> ConjurAccount manager = '''' \<and>
            ConjurAuthnLogin manager = '''' \<and> ConjurAuthnApiKey manager = '''')"
  shows "fst (Validate manager) =
     (if ConjurAuthnLogin manager = '''' then Some (errors_New ''must provide conjur authn login'')
      else if ConjurAuthnApiKey manager = '''' then Some (errors_New ''must provide conjur authn key'')
      else if ConjurApplianceUrl manager = '''' then Some (errors_New ''must provide conjur appliance url'')
      else if ConjurAccount manager = '''' then Some (errors_New ''must provide conjur account'')
      else None)"
  using assms by (auto simp: Validate_def)

theorem Validate_first_missing_field_witness:
  "buildSecretTemplate ''pipeline-secret-template''
     (PipelineSecretTemplate (defaultManager\<lparr>ConjurAuthnLogin := ''host/concourse''\<rparr>)) =
     Inr defaultPipelineTemplate
   \<and> buildSecretTemplate ''team-secret-template''
     (TeamSecretTemplate (defaultManager\<lparr>ConjurAuthnLogin := ''host/concourse''\<rparr>)) =
     Inr defaultTeamTemplate
   \<and> Execute defaultPipelineTemplate dummy = Inr ''/concourse/team/pipeline/secret''
   \<and> Execute defaultTeamTemplate dummy = Inr ''/concourse/team/secret''
   \<and> fst (Validate (defaultManager\<lparr>ConjurAuthnLogin := ''host/concourse''\<rparr>)) =
     Some (errors_New ''must provide conjur authn key'')"
  using Validate_first_missing_field
    [of "defaultManager\<lparr>ConjurAuthnLogin := ''host/concourse''\<rparr>"
        defaultPipelineTemplate defaultTeamTemplate
        "''/concourse/team/pipeline/secret''" "''/concourse/team/secret''"]
  by (simp add: defaultManager_def default_templates dummy_def)

text \<open>
  C5. When the four fields appliance URL, account, login and api key are all empty
  and both templates compile and execute, \<open>Validate\<close> returns nil.
\<close>

theorem Validate_all_empty_ok:
  assumes "buildSecretTemplate ''pipeline-secret-template'' (PipelineSecretTemplate manager) = Inr p"
    and "buildSecretTemplate ''team-secret-template'' (TeamSecretTemplate manager) = Inr t"
    and "Execute p dummy = Inr out1"
    and "Execute t dummy = Inr out2"
    and "ConjurApplianceUrl manager = ''''" and "ConjurAccount manager = ''''"
    and "ConjurAuthnLogin manager = ''''" and "ConjurAuthnApiKey manager = ''''"
  shows "fst (Validate manager) = None"
  using assms by (simp add: Validate_def)

theorem Validate_all_empty_ok_witness:
  "buildSecretTemplate ''pipeline-secret-template'' (PipelineSecretTemplate defaultManager) =
     Inr defaultPipelineTemplate
   \<and> buildSecretTemplate ''team-secret-template'' (TeamSecretTemplate defaultManager) =
     Inr defaultTeamTemplate
   \<and> Execute defaultPipelineTemplate dummy = Inr ''/concourse/team/pipeline/secret''
   \<and> Execute defaultTeamTemplate dummy = Inr ''/concourse/team/secret''
   \<and> ConjurApplianceUrl defaultManager = '''' \<and> ConjurAccount defaultManager = ''''
   \<and> ConjurAuthnLogin defaultManager = '''' \<and> ConjurAuthnApiKey defaultManager = ''''
   \<and> fst (Validate defaultManager) = None"
  using Validate_all_empty_ok
    [of defaultManager defaultPipelineTemplate defaultTeamTemplate
        "''/concourse/team/pipeline/secret''" "''/concourse/team/secret''"]
  by (simp add: defaultManager_def default_templates dummy_def)

text \<open>
  C6. \<open>Validate\<close> checks the templates before the credential fields, and a failure
  of a template is returned at once, whatever the credential fields hold. The
  order of the checks: the pipeline template is compiled, then the team template,
  then the pipeline template is executed, then the team template.
\<close>

theorem Validate_template_failure_first:
  "(buildSecretTemplate ''pipeline-secret-template'' (PipelineSecretTemplate manager) = Inl err
      \<longrightarrow> fst (Validate manager) = Some err)
   \<and> (buildSecretTemplate ''pipeline-secret-template'' (PipelineSecretTemplate manager) = Inr p
      \<and> buildSecretTemplate ''team-secret-template'' (TeamSecretTemplate manager) = Inl err
      \<longrightarrow> fst (Validate manager) = Some err)
   \<and> (buildSecretTemplate ''pipeline-secret-template'' (PipelineSecretTemplate manager) = Inr p
      \<and> buildSecretTemplate ''team-secret-template'' (TeamSecretTemplate manager) = Inr t
      \<and> Execute p dummy = Inl err
      \<longrightarrow> fst (Validate manager) = Some err)
   \<and> (buildSecretTemplate ''pipeline-secret-template'' (PipelineSecretTemplate manager) = Inr p
      \<and> buildSecretTemplate ''team-secret-template'' (TeamSecretTemplate manager) = Inr t
      \<and> Execute p dummy = Inr out1 \<and> Execute t dummy = Inl err
      \<longrightarrow> fst (Validate manager) = Some err)"
  by (simp add: Validate_def)

theorem Validate_template_failure_first_witness:
  "buildSecretTemplate ''pipeline-secret-template''
     (PipelineSecretTemplate (defaultManager\<lparr>ConjurApplianceUrl := ''https://conjur'',
        PipelineSecretTemplate := ''{{.Foo}}'', TeamSecretTemplate := ''''\<rparr>)) =
     Inr \<lparr>Name = ''pipeline-secret-template'', Root = [ActionNode [FieldNode [''Foo'']]]\<rparr>
   \<and> buildSecretTemplate ''team-secret-template''
     (TeamSecretTemplate (defaultManager\<lparr>ConjurApplianceUrl := ''https://conjur'',
        PipelineSecretTemplate := ''{{.Foo}}'', TeamSecretTemplate := ''''\<rparr>)) =
     Inl (errors_New ''secret template should not be empty'')
   \<and> fst (Validate (defaultManager\<lparr>ConjurApplianceUrl := ''https://conjur'',
        PipelineSecretTemplate := ''{{.Foo}}'', TeamSecretTemplate := ''''\<rparr>)) =
     Some (errors_New ''secret template should not be empty'')"
proof -
  have p: "buildSecretTemplate ''pipeline-secret-template'' ''{{.Foo}}'' =
      Inr \<lparr>Name = ''pipeline-secret-template'', Root = [ActionNode [FieldNode [''Foo'']]]\<rparr>"
    by code_simp
  have t: "buildSecretTemplate ''team-secret-template'' '''' =
      Inl (errors_New ''secret template should not be empty'')"
    by code_simp
  show ?thesis
    using Validate_template_failure_first
      [of "defaultManager\<lparr>ConjurApplianceUrl := ''https://conjur'',
             PipelineSecretTemplate := ''{{.Foo}}'', TeamSecretTemplate := ''''\<rparr>"
          "errors_New ''secret template should not be empty''"
          "\<lparr>Name = ''pipeline-secret-template'', Root = [ActionNode [FieldNode [''Foo'']]]\<rparr>"]
    by (simp add: defaultManager_def p t)
qed

text \<open>
  C10. \<open>IsConfigured\<close> is true exactly when the appliance URL is not empty, whatever
  the other fields hold: a configuration with the four credential fields empty
  that \<open>Validate\<close> accepts is not configured, and a configuration with the
  appliance URL as the only credential field set is configured although
  \<open>Validate\<close> rejects it.
\<close>

theorem IsConfigured_iff_appliance_url:
  "(IsConfigured manager \<longleftrightarrow> ConjurApplianceUrl manager \<noteq> '''')
   \<and> (ConjurApplianceUrl manager = '''' \<and> ConjurAccount manager = '''' \<and>
       ConjurAuthnLogin manager = '''' \<and> ConjurAuthnApiKey manager = '''' \<and>
       fst (Validate manager) = None \<longrightarrow> \<not> IsConfigured manager)
   \<and> (ConjurApplianceUrl manager \<noteq> '''' \<and> ConjurAccount manager = '''' \<and>
       ConjurAuthnLogin manager = '''' \<and> ConjurAuthnApiKey manager = ''''
       \<longrightarrow> IsConfigured manager \<and> fst (Validate manager) \<noteq> None)"
  by (auto simp: IsConfigured_def Validate_def split: sum.splits)

theorem IsConfigured_iff_appliance_url_witness:
  "fst (Validate defaultManager) = None \<and> \<not> IsConfigured defaultManager
   \<and> IsConfigured (defaultManager\<lparr>ConjurApplianceUrl := ''https://conjur''\<rparr>)
   \<and> fst (Validate (defaultManager\<lparr>ConjurApplianceUrl := ''https://conjur''\<rparr>)) =
       Some (errors_New ''must provide conjur authn login'')"
  using IsConfigured_iff_appliance_url [of defaultManager]
    IsConfigured_iff_appliance_url [of "defaultManager\<lparr>ConjurApplianceUrl := ''https://conjur''\<rparr>"]
  by (simp add: defaultManager_def Validate_def default_templates)

section \<open>Empty templates\<close>










section \<open>Field references\<close>



















section \<open>Resolution\<close>

lemma NewSecretsFactory_templates:
  assumes "NewSecretsFactory LoadConfig NewClientFromKey manager = Inr factory"
  shows "\<exists>p t. secretTemplates factory = [p, t]
     \<and> buildSecretTemplate ''pipeline-secret-template'' (PipelineSecretTemplate manager) = Inr p
     \<and> buildSecretTemplate ''team-secret-template'' (TeamSecretTemplate manager) = Inr t"
  using assms
  by (auto simp: NewSecretsFactory_def NewConjurFactory_def split: sum.splits)

lemma resolve_with_pipeline:
  assumes "Pipeline request \<noteq> ''''" "Execute p request = Inr pp"
  shows "snd (resolve request [p, t] storeClient) = [pp]
     \<or> (\<exists>tp. Execute t request = Inr tp \<and> snd (resolve request [p, t] storeClient) = [pp, tp])"
  using assms
  by (auto simp: resolve_def precedence_def split: sum.splits prod.splits)

text \<open>
  C1. The factory holds the compiled pipeline template first and the team template
  second. For a request with a pipeline the pipeline template is rendered first: if
  that fails the resolution ends with no query, else the pipeline path is the first
  path queried and the team path, if queried at all, the second. With the default
  templates and the request \<open>{Team: t1, Pipeline: p1, Secret: s1}\<close> the path
  \<open>/concourse/t1/p1/s1\<close> is queried before \<open>/concourse/t1/s1\<close>.
\<close>

theorem resolve_pipeline_path_first:
  "(NewSecretsFactory LoadConfig NewClientFromKey manager = Inr factory \<longrightarrow>
      (\<exists>p t. secretTemplates factory = [p, t]
         \<and> buildSecretTemplate ''pipeline-secret-template'' (PipelineSecretTemplate manager) = Inr p
         \<and> buildSecretTemplate ''team-secret-template'' (TeamSecretTemplate manager) = Inr t))
   \<and> (Pipeline request \<noteq> '''' \<and> Execute p request = Inl err \<longrightarrow>
        resolve request [p, t] storeClient = (Inl err, []))
   \<and> (Pipeline request \<noteq> '''' \<and> Execute p request = Inr pp \<longrightarrow>
        snd (resolve request [p, t] storeClient) = [pp]
        \<or> (\<exists>tp. Execute t request = Inr tp \<and> snd (resolve request [p, t] storeClient) = [pp, tp]))
   \<and> (NewSecretsFactory LoadConfig NewClientFromKey manager = Inr factory
       \<and> PipelineSecretTemplate manager = DefaultPipelineSecretTemplate
       \<and> TeamSecretTemplate manager = DefaultTeamSecretTemplate \<longrightarrow>
        snd (resolve \<lparr>Team = ''t1'', Pipeline = ''p1'', Secret = ''s1''\<rparr> (secretTemplates factory) storeClient)
          = [''/concourse/t1/p1/s1'']
        \<or> snd (resolve \<lparr>Team = ''t1'', Pipeline = ''p1'', Secret = ''s1''\<rparr> (secretTemplates factory) storeClient)
          = [''/concourse/t1/p1/s1'', ''/concourse/t1/s1''])"
proof (intro conjI impI)
  assume "NewSecretsFactory LoadConfig NewClientFromKey manager = Inr factory"
  then show "\<exists>p t. secretTemplates factory = [p, t]
         \<and> buildSecretTemplate ''pipeline-secret-template'' (PipelineSecretTemplate manager) = Inr p
         \<and> buildSecretTemplate ''team-secret-template'' (TeamSecretTemplate manager) = Inr t"
    by (rule NewSecretsFactory_templates)
next
  assume "Pipeline request \<noteq> '''' \<and> Execute p request = Inl err"
  then show "resolve request [p, t] storeClient = (Inl err, [])"
    by (simp add: resolve_def precedence_def)
next
  assume "Pipeline request \<noteq> '''' \<and> Execute p request = Inr pp"
  then show "snd (resolve request [p, t] storeClient) = [pp]
        \<or> (\<exists>tp. Execute t request = Inr tp \<and> snd (resolve request [p, t] storeClient) = [pp, tp])"
    using resolve_with_pipeline by blast
next
  let ?r = "\<lparr>Team = ''t1'', Pipeline = ''p1'', Secret = ''s1''\<rparr>"
  assume a: "NewSecretsFactory LoadConfig NewClientFromKey manager = Inr factory
       \<and> PipelineSecretTemplate manager = DefaultPipelineSecretTemplate
       \<and> TeamSecretTemplate manager = DefaultTeamSecretTemplate"
  then have ts: "secretTemplates factory = [defaultPipelineTemplate, defaultTeamTemplate]"
    using NewSecretsFactory_templates [of LoadConfig NewClientFromKey manager factory]
    by (auto simp: default_templates)
  have "Pipeline ?r \<noteq> ''''" "Execute defaultPipelineTemplate ?r = Inr ''/concourse/t1/p1/s1''"
    "Execute defaultTeamTemplate ?r = Inr ''/concourse/t1/s1''"
    by (simp_all add: default_templates)
  then show "snd (resolve ?r (secretTemplates factory) storeClient) = [''/concourse/t1/p1/s1'']
        \<or> snd (resolve ?r (secretTemplates factory) storeClient)
          = [''/concourse/t1/p1/s1'', ''/concourse/t1/s1'']"
    using resolve_with_pipeline [of ?r defaultPipelineTemplate "''/concourse/t1/p1/s1''" defaultTeamTemplate storeClient]
    unfolding ts by auto
qed

theorem resolve_pipeline_path_first_witness:
  "NewSecretsFactory (Inr \<lparr>ApplianceURL = '''', Account = ''''\<rparr>) (\<lambda>config login. Inr exampleStore)
      defaultManager =
     Inr \<lparr>client = exampleStore, secretTemplates = [defaultPipelineTemplate, defaultTeamTemplate]\<rparr>
   \<and> resolve \<lparr>Team = ''t1'', Pipeline = ''p1'', Secret = ''s1''\<rparr>
        [defaultPipelineTemplate, defaultTeamTemplate] exampleStore =
     (Inr (''hunter2'', True), [''/concourse/t1/p1/s1'', ''/concourse/t1/s1''])"
proof -
  have f: "NewSecretsFactory (Inr \<lparr>ApplianceURL = '''', Account = ''''\<rparr>) (\<lambda>config login. Inr exampleStore)
      defaultManager =
     Inr \<lparr>client = exampleStore, secretTemplates = [defaultPipelineTemplate, defaultTeamTemplate]\<rparr>"
    by (simp add: NewSecretsFactory_def NewConjurFactory_def defaultManager_def default_templates)
  have r: "resolve \<lparr>Team = ''t1'', Pipeline = ''p1'', Secret = ''s1''\<rparr>
        [defaultPipelineTemplate, defaultTeamTemplate] exampleStore =
     (Inr (''hunter2'', True), [''/concourse/t1/p1/s1'', ''/concourse/t1/s1''])"
    by (simp add: resolve_def precedence_def default_templates exampleStore_def)
  show ?thesis
    using resolve_pipeline_path_first
      [of "Inr \<lparr>ApplianceURL = '''', Account = ''''\<rparr>" "\<lambda>config login. Inr exampleStore" defaultManager
          "\<lparr>client = exampleStore, secretTemplates = [defaultPipelineTemplate, defaultTeamTemplate]\<rparr>"
          "\<lparr>Team = ''t1'', Pipeline = ''p1'', Secret = ''s1''\<rparr>"
          defaultPipelineTemplate _ defaultTeamTemplate exampleStore]
      f r
    by simp
qed

text \<open>
  C8. For a request with a pipeline, when the store reports not found for the
  pipeline path and a value for the team path, the resolution returns that value
  with found true.
\<close>

theorem resolve_falls_back_to_team:
  assumes "Pipeline request \<noteq> ''''"
    and "Execute p request = Inr pp" and "Execute t request = Inr tp"
    and "storeClient pp = Inr (x, False)" and "storeClient tp = Inr (v, True)"
  shows "fst (resolve request [p, t] storeClient) = Inr (v, True)"
  using assms by (simp add: resolve_def precedence_def)

theorem resolve_falls_back_to_team_witness:
  "Pipeline \<lparr>Team = ''t1'', Pipeline = ''p1'', Secret = ''s1''\<rparr> \<noteq> ''''
   \<and> Execute defaultPipelineTemplate \<lparr>Team = ''t1'', Pipeline = ''p1'', Secret = ''s1''\<rparr> = Inr ''/concourse/t1/p1/s1''
   \<and> Execute defaultTeamTemplate \<lparr>Team = ''t1'', Pipeline = ''p1'', Secret = ''s1''\<rparr> = Inr ''/concourse/t1/s1''
   \<and> exampleStore ''/concourse/t1/p1/s1'' = Inr ('''', False)
   \<and> exampleStore ''/concourse/t1/s1'' = Inr (''hunter2'', True)
   \<and> fst (resolve \<lparr>Team = ''t1'', Pipeline = ''p1'', Secret = ''s1''\<rparr>
        [defaultPipelineTemplate, defaultTeamTemplate] exampleStore) = Inr (''hunter2'', True)"
  using resolve_falls_back_to_team
    [of "\<lparr>Team = ''t1'', Pipeline = ''p1'', Secret = ''s1''\<rparr>" defaultPipelineTemplate
        "''/concourse/t1/p1/s1''" defaultTeamTemplate "''/concourse/t1/s1''" exampleStore "''''" "''hunter2''"]
  by (simp add: default_templates exampleStore_def)

end
